theory Spec2Isabelle
  imports Complex_Main "HOL-Library.Word" "HOL-Library.Sublist"
begin

section \<open>Strings and values of the host language\<close>

text \<open>
  The validator is TypeScript. Its strings are sequences of UTF-16 code units, so a
  string is a list of 16-bit words; \<open>ascii\<close> writes the ASCII literals of the source.
  The Japanese message texts of the source are given by their code units.
\<close>

type_synonym code_unit = "16 word"
type_synonym jsstring = "code_unit list"

definition ascii :: "string \<Rightarrow> jsstring" where
  "ascii s = map (\<lambda>c. of_nat (of_char c)) s"

text \<open>
  The characters matched by the white-space class of a pattern and stripped by
  \<open>trim()\<close>: the language's white space and line terminators (the two sets are
  the same).
\<close>

definition is_space :: "code_unit \<Rightarrow> bool" where
  "is_space c \<longleftrightarrow> c \<in> set [0x9, 0xA, 0xB, 0xC, 0xD, 0x20, 0xA0, 0x1680,
     0x2000, 0x2001, 0x2002, 0x2003, 0x2004, 0x2005, 0x2006, 0x2007, 0x2008, 0x2009, 0x200A,
     0x2028, 0x2029, 0x202F, 0x205F, 0x3000, 0xFEFF]"

definition trim :: "jsstring \<Rightarrow> jsstring" where
  "trim s = rev (dropWhile is_space (rev (dropWhile is_space s)))"

text \<open>
  A number is a double. The validator only asks whether one is below zero, so a finite
  double is kept as the rational it denotes (both zeros are 0) beside the three special
  values.
\<close>

datatype jsnumber = NaN | PosInfinity | NegInfinity | Finite rat

fun less_zero :: "jsnumber \<Rightarrow> bool" where
  "less_zero NaN = False"
| "less_zero PosInfinity = False"
| "less_zero NegInfinity = True"
| "less_zero (Finite q) = (q < 0)"

text \<open>
  The values a parsed document or a caller's record can hold. An object is a map from
  its keys to its values. A byte buffer is what the parser returns for a scalar
  tagged as binary: an object that is neither null nor an array.
\<close>

datatype jsvalue =
    JUndefined
  | JNull
  | JBool bool
  | JNum jsnumber
  | JStr jsstring
  | JArr "jsvalue list"
  | JObj "jsstring \<Rightarrow> jsvalue option"
  | JBinary "8 word list"

type_synonym jsrecord = "jsstring \<Rightarrow> jsvalue option"

fun typeof :: "jsvalue \<Rightarrow> jsstring" where
  "typeof JUndefined = ascii ''undefined''"
| "typeof JNull = ascii ''object''"
| "typeof (JBool b) = ascii ''boolean''"
| "typeof (JNum n) = ascii ''number''"
| "typeof (JStr s) = ascii ''string''"
| "typeof (JArr xs) = ascii ''object''"
| "typeof (JObj m) = ascii ''object''"
| "typeof (JBinary b) = ascii ''object''"

fun isArray :: "jsvalue \<Rightarrow> bool" where
  "isArray (JArr xs) = True"
| "isArray v = False"

text \<open>
  \<open>k in r\<close> and \<open>r.k\<close> on a record. The operator \<open>in\<close> also follows the prototype
  chain; the validator only asks for the six schema names, none of which is a property
  of the object or array prototypes, so for them it is membership among the own keys.
\<close>

definition has_key :: "jsstring \<Rightarrow> jsrecord \<Rightarrow> bool" where
  "has_key k r \<longleftrightarrow> r k \<noteq> None"

definition get_prop :: "jsrecord \<Rightarrow> jsstring \<Rightarrow> jsvalue" where
  "get_prop r k = (case r k of Some v \<Rightarrow> v | None \<Rightarrow> JUndefined)"

text \<open>
  The cast \<open>v as Record<string, unknown>\<close> of a non-null value of type object. The
  keys of an array or of a byte buffer are its indices and \<open>length\<close> (and, for the
  buffer, the properties of its prototype), never a schema name, so as a record seen
  by the validator it has no key.
\<close>

fun as_record :: "jsvalue \<Rightarrow> jsrecord" where
  "as_record (JObj m) = m"
| "as_record v = Map.empty"

section \<open>The schema tables\<close>

definition REQUIRED_FIELDS :: "jsstring list" where
  "REQUIRED_FIELDS = [ascii ''name'', ascii ''version'']"

record field_doc =
  description :: jsstring
  type :: jsstring
  required :: bool

definition FIELD_DOCS :: "jsstring \<Rightarrow> field_doc option" where
  "FIELD_DOCS = map_of
    [(ascii ''name'',
        \<lparr>description = [0x30A2, 0x30D7, 0x30EA, 0x30B1, 0x30FC, 0x30B7, 0x30E7, 0x30F3, 0x306E,
           0x540D, 0x524D, 0x3092, 0x6307, 0x5B9A, 0x3057, 0x307E, 0x3059, 0x3002],
         type = ascii ''string'', required = True\<rparr>),
     (ascii ''version'',
        \<lparr>description = [0x30D0, 0x30FC, 0x30B8, 0x30E7, 0x30F3, 0x756A, 0x53F7, 0x3092, 0x6307,
           0x5B9A, 0x3057, 0x307E, 0x3059, 0xFF08, 0x4F8B, 0x3A, 0x20, 0x22, 0x31, 0x2E, 0x30,
           0x2E, 0x30, 0x22, 0xFF09, 0x3002],
         type = ascii ''string'', required = True\<rparr>),
     (ascii ''enabled'',
        \<lparr>description = [0x30A2, 0x30D7, 0x30EA, 0x30B1, 0x30FC, 0x30B7, 0x30E7, 0x30F3, 0x306E,
           0x6709, 0x52B9, 0x2F, 0x7121, 0x52B9, 0x3092, 0x8A2D, 0x5B9A, 0x3057, 0x307E, 0x3059,
           0x3002],
         type = ascii ''boolean'', required = False\<rparr>),
     (ascii ''settings'',
        \<lparr>description = [0x8A73, 0x7D30, 0x8A2D, 0x5B9A, 0x30AA, 0x30D6, 0x30B8, 0x30A7, 0x30AF,
           0x30C8, 0x3067, 0x3059, 0x3002],
         type = ascii ''object'', required = False\<rparr>),
     (ascii ''timeout'',
        \<lparr>description = [0x30BF, 0x30A4, 0x30E0, 0x30A2, 0x30A6, 0x30C8, 0x6642, 0x9593, 0xFF08,
           0x79D2, 0xFF09, 0x3092, 0x6307, 0x5B9A, 0x3057, 0x307E, 0x3059, 0x3002],
         type = ascii ''number'', required = False\<rparr>),
     (ascii ''retries'',
        \<lparr>description = [0x30EA, 0x30C8, 0x30E9, 0x30A4, 0x56DE, 0x6570, 0x3092, 0x6307, 0x5B9A,
           0x3057, 0x307E, 0x3059, 0x3002],
         type = ascii ''number'', required = False\<rparr>)]"

section \<open>Locating a key in the text\<close>

text \<open>
  Splitting the text at line feeds (code unit 10): the pieces between them; the empty
  text is one empty line.
\<close>

fun split_nl :: "jsstring \<Rightarrow> jsstring list" where
  "split_nl [] = [[]]"
| "split_nl (c # cs) =
     (if c = 0xA then [] # split_nl cs
      else (case split_nl cs of [] \<Rightarrow> [[c]] | l # ls \<Rightarrow> (c # l) # ls))"

text \<open>
  \<open>findLineForKey\<close> builds a pattern anchored at the start of the line: any white
  space, the key spliced in as it is, any white space, a colon (code unit 58); and
  tests each line. The key is not escaped, so it is read as a piece of pattern: a
  character without a meaning in the pattern language stands for itself, the dot (code
  unit 46) stands for any character but a line terminator, and the other characters of
  \<open>pattern_syntax\<close> (the backslash is code unit 92) form quantifiers, groups,
  classes, escapes and alternatives, or make the pattern ill-formed so that building
  it throws.

  The model covers the keys made of plain characters and dots: \<open>compile_key\<close> turns
  such a key into its atoms and is \<open>None\<close> for a key with other pattern syntax, which
  is outside the model. The six schema names are plain.
\<close>

definition pattern_syntax :: "code_unit list" where
  "pattern_syntax = 0x5C # ascii ''^$.*+?()[]{}|''"

definition literal_key :: "jsstring \<Rightarrow> bool" where
  "literal_key key \<longleftrightarrow> list_all (\<lambda>c. c \<notin> set pattern_syntax) key"

datatype key_atom = Lit code_unit | Dot

fun compile_key :: "jsstring \<Rightarrow> key_atom list option" where
  "compile_key [] = Some []"
| "compile_key (c # cs) =
     (if c = 0x2E then map_option ((#) Dot) (compile_key cs)
      else if c \<in> set pattern_syntax then None
      else map_option ((#) (Lit c)) (compile_key cs))"

text \<open>The line terminators, which the dot does not match.\<close>

fun atom_matches :: "key_atom \<Rightarrow> code_unit \<Rightarrow> bool" where
  "atom_matches (Lit a) c = (a = c)"
| "atom_matches Dot c = (c \<notin> set [0xA, 0xD, 0x2028, 0x2029])"

text \<open>Matching the atoms at the start of a string: what is left after them.\<close>

fun match_atoms :: "key_atom list \<Rightarrow> jsstring \<Rightarrow> jsstring option" where
  "match_atoms [] s = Some s"
| "match_atoms (a # as) [] = None"
| "match_atoms (a # as) (c # cs) = (if atom_matches a c then match_atoms as cs else None)"

text \<open>
  \<open>regex_test\<close> tries every length of the leading white space, as the backtracking
  matcher does, then wants the key's atoms, then skips white space and wants a colon.
\<close>

definition key_then_colon :: "key_atom list \<Rightarrow> jsstring \<Rightarrow> bool" where
  "key_then_colon atoms s \<longleftrightarrow>
     (case match_atoms atoms s of
        None \<Rightarrow> False
      | Some r \<Rightarrow> (case dropWhile is_space r of [] \<Rightarrow> False | c # _ \<Rightarrow> c = 0x3A))"

definition regex_test :: "key_atom list \<Rightarrow> jsstring \<Rightarrow> bool" where
  "regex_test atoms l \<longleftrightarrow>
     list_ex (\<lambda>n. key_then_colon atoms (drop n l))
       [0..<Suc (length (takeWhile is_space l))]"

text \<open>The loop over the lines, from index \<open>i\<close>; \<open>None\<close> when it runs off the end.\<close>

fun find_first :: "('a \<Rightarrow> bool) \<Rightarrow> 'a list \<Rightarrow> nat \<Rightarrow> nat option" where
  "find_first t [] i = None"
| "find_first t (l # ls) i = (if t l then Some i else find_first t ls (Suc i))"

text \<open>
  The function: the index of the first line the pattern matches, 0 when there is
  none. The result is \<open>None\<close> exactly when the key is outside the model.
\<close>

definition findLineForKey :: "jsstring \<Rightarrow> jsstring \<Rightarrow> nat option" where
  "findLineForKey text key =
     (case compile_key key of
        None \<Rightarrow> None
      | Some atoms \<Rightarrow>
          Some (case find_first (regex_test atoms) (split_nl text) 0 of
                  Some i \<Rightarrow> i | None \<Rightarrow> 0))"

text \<open>
  The validator calls \<open>findLineForKey\<close> with the six schema names only. They are
  plain keys, so the call returns a line (\<open>findLineForKey_literal\<close> below);
  \<open>line_of\<close> reads it, and its other case is never taken there.
\<close>

definition line_of :: "nat option \<Rightarrow> nat" where
  "line_of r = (case r of Some i \<Rightarrow> i | None \<Rightarrow> 0)"

text \<open>
  The specification's reading of a matching line: optional leading white space, the
  field name, optional white space, a colon (and then anything).
\<close>

definition spec_key_line :: "jsstring \<Rightarrow> jsstring \<Rightarrow> bool" where
  "spec_key_line key l \<longleftrightarrow>
     (\<exists>ws1 ws2 rest. l = ws1 @ key @ ws2 @ 0x3A # rest \<and>
        list_all is_space ws1 \<and> list_all is_space ws2)"

section \<open>Diagnostics\<close>

datatype DiagnosticSeverity = Error | Warning | Information | Hint

record position =
  line :: int
  character :: int

record range_t =
  start :: position
  end_t :: position

record diagnostic =
  severity :: DiagnosticSeverity
  range_d :: range_t
  message :: jsstring
  source :: jsstring

definition createDiagnostic :: "DiagnosticSeverity \<Rightarrow> int \<Rightarrow> jsstring \<Rightarrow> diagnostic" where
  "createDiagnostic sev lnum msg =
     \<lparr>severity = sev,
      range_d = \<lparr>start = \<lparr>line = lnum, character = 0\<rparr>,
                 end_t = \<lparr>line = lnum, character = 1000\<rparr>\<rparr>,
      message = msg,
      source = ascii ''myconfig-lsp''\<rparr>"

subsection \<open>The message texts\<close>

definition msg_required :: "jsstring \<Rightarrow> jsstring" where
  "msg_required field =
     [0x5FC5, 0x9808, 0x30D5, 0x30A3, 0x30FC, 0x30EB, 0x30C9, 0x20, 0x22] @ field @
     [0x22, 0x20, 0x304C, 0x3042, 0x308A, 0x307E, 0x305B, 0x3093]"

definition must_be :: "jsstring" where
  "must_be = [0x3067, 0x3042, 0x308B, 0x5FC5, 0x8981, 0x304C, 0x3042, 0x308A, 0x307E, 0x3059]"

definition msg_name_string :: jsstring where
  "msg_name_string =
     [0x22] @ ascii ''name'' @ [0x22, 0x20, 0x306F, 0x6587, 0x5B57, 0x5217] @ must_be"

definition msg_version_string :: jsstring where
  "msg_version_string =
     [0x22] @ ascii ''version'' @ [0x22, 0x20, 0x306F, 0x6587, 0x5B57, 0x5217] @ must_be"

definition msg_enabled_boolean :: jsstring where
  "msg_enabled_boolean =
     [0x22] @ ascii ''enabled'' @ [0x22, 0x20, 0x306F, 0x771F, 0x507D, 0x5024] @ must_be @
     [0xFF08] @ ascii ''true '' @ [0x307E, 0x305F, 0x306F] @ ascii '' false'' @ [0xFF09]"

definition msg_settings_object :: jsstring where
  "msg_settings_object =
     [0x22] @ ascii ''settings'' @
     [0x22, 0x20, 0x306F, 0x30AA, 0x30D6, 0x30B8, 0x30A7, 0x30AF, 0x30C8] @ must_be"

definition msg_timeout_number :: jsstring where
  "msg_timeout_number =
     [0x22] @ ascii ''settings.timeout'' @ [0x22, 0x20, 0x306F, 0x6570, 0x5024] @ must_be"

definition msg_retries_number :: jsstring where
  "msg_retries_number =
     [0x22] @ ascii ''settings.retries'' @ [0x22, 0x20, 0x306F, 0x6570, 0x5024] @ must_be"

definition msg_retries_negative :: jsstring where
  "msg_retries_negative =
     [0x22] @ ascii ''settings.retries'' @ [0x22, 0x20, 0x306F, 0x30, 0x4EE5, 0x4E0A] @ must_be"

definition msg_syntax_prefix :: jsstring where
  "msg_syntax_prefix =
     ascii ''YAML'' @ [0x69CB, 0x6587, 0x30A8, 0x30E9, 0x30FC] @ ascii '': ''"

definition msg_root_object :: jsstring where
  "msg_root_object =
     [0x30EB, 0x30FC, 0x30C8, 0x8981, 0x7D20, 0x306F, 0x30AA, 0x30D6, 0x30B8, 0x30A7, 0x30AF,
      0x30C8] @ must_be"

section \<open>Validating a parsed record\<close>

text \<open>
  The array \<open>diagnostics\<close> of the source is threaded through: each \<open>push\<close> appends
  one element. First the loop over \<open>REQUIRED_FIELDS\<close>.
\<close>

fun required_loop :: "jsrecord \<Rightarrow> jsstring list \<Rightarrow> diagnostic list \<Rightarrow> diagnostic list" where
  "required_loop config [] diagnostics = diagnostics"
| "required_loop config (field # rest) diagnostics =
     required_loop config rest
       (if \<not> has_key field config
        then diagnostics @ [createDiagnostic Error 0 (msg_required field)]
        else diagnostics)"

text \<open>
  \<open>v < 0\<close>. The source evaluates it only behind \<open>typeof v === 'number'\<close>, so only
  the number case is ever asked.
\<close>

fun lt_zero :: "jsvalue \<Rightarrow> bool" where
  "lt_zero (JNum n) = less_zero n"
| "lt_zero v = False"

definition validateConfig :: "jsrecord \<Rightarrow> jsstring \<Rightarrow> diagnostic list" where
  "validateConfig config text =
    (let d0 = required_loop config REQUIRED_FIELDS [];
         d1 = (if has_key (ascii ''name'') config \<and>
                  typeof (get_prop config (ascii ''name'')) \<noteq> ascii ''string''
               then d0 @ [createDiagnostic Error
                            (int (line_of (findLineForKey text (ascii ''name'')))) msg_name_string]
               else d0);
         d2 = (if has_key (ascii ''version'') config \<and>
                  typeof (get_prop config (ascii ''version'')) \<noteq> ascii ''string''
               then d1 @ [createDiagnostic Error
                            (int (line_of (findLineForKey text (ascii ''version'')))) msg_version_string]
               else d1);
         d3 = (if has_key (ascii ''enabled'') config \<and>
                  typeof (get_prop config (ascii ''enabled'')) \<noteq> ascii ''boolean''
               then d2 @ [createDiagnostic Warning
                            (int (line_of (findLineForKey text (ascii ''enabled'')))) msg_enabled_boolean]
               else d2)
     in
       if has_key (ascii ''settings'') config then
         (let settings = get_prop config (ascii ''settings'') in
          if typeof settings \<noteq> ascii ''object'' \<or> settings = JNull
          then d3 @ [createDiagnostic Error
                       (int (line_of (findLineForKey text (ascii ''settings'')))) msg_settings_object]
          else
            (let s = as_record settings;
                 d4 = (if has_key (ascii ''timeout'') s \<and>
                          typeof (get_prop s (ascii ''timeout'')) \<noteq> ascii ''number''
                       then d3 @ [createDiagnostic Warning
                                    (int (line_of (findLineForKey text (ascii ''timeout''))))
                                    msg_timeout_number]
                       else d3);
                 d5 = (if has_key (ascii ''retries'') s \<and>
                          typeof (get_prop s (ascii ''retries'')) \<noteq> ascii ''number''
                       then d4 @ [createDiagnostic Warning
                                    (int (line_of (findLineForKey text (ascii ''retries''))))
                                    msg_retries_number]
                       else d4);
                 d6 = (if has_key (ascii ''retries'') s \<and>
                          typeof (get_prop s (ascii ''retries'')) = ascii ''number'' \<and>
                          lt_zero (get_prop s (ascii ''retries''))
                       then d5 @ [createDiagnostic Warning
                                    (int (line_of (findLineForKey text (ascii ''retries''))))
                                    msg_retries_negative]
                       else d5)
             in d6))
       else d3)"

section \<open>Validating a text\<close>

text \<open>
  The YAML parser is a library outside the repository. A call to it returns a value,
  throws a \<open>YAMLParseError\<close>, or throws something else; the validator takes it as the
  parameter \<open>parseYaml\<close>. An error carries its message and, optionally, one or two
  positions with 1-based line and column.
\<close>

record line_pos =
  pos_line :: int
  pos_col :: int

record YAMLParseError =
  err_message :: jsstring
  linePos :: "line_pos list option"

datatype parse_outcome =
    Returns jsvalue
  | ThrowsYAMLParseError YAMLParseError
  | ThrowsOther jsvalue

record parse_result =
  parsed :: jsvalue
  error :: "YAMLParseError option"

text \<open>\<open>Inl\<close> is an exception that leaves the function.\<close>

definition parseYamlText :: "(jsstring \<Rightarrow> parse_outcome) \<Rightarrow> jsstring \<Rightarrow> jsvalue + parse_result" where
  "parseYamlText parseYaml text =
     (case parseYaml text of
        Returns v \<Rightarrow> Inr \<lparr>parsed = v, error = None\<rparr>
      | ThrowsYAMLParseError e \<Rightarrow> Inr \<lparr>parsed = JNull, error = Some e\<rparr>
      | ThrowsOther x \<Rightarrow> Inl x)"

text \<open>\<open>error.linePos?.[0]\<close>: the first position, when there is one.\<close>

definition first_pos :: "YAMLParseError \<Rightarrow> line_pos option" where
  "first_pos e = (case linePos e of None \<Rightarrow> None | Some [] \<Rightarrow> None | Some (p # ps) \<Rightarrow> Some p)"

text \<open>\<open>(pos?.line ?? 1) - 1\<close>\<close>

definition error_line :: "YAMLParseError \<Rightarrow> int" where
  "error_line e = (case first_pos e of None \<Rightarrow> 1 | Some p \<Rightarrow> pos_line p) - 1"

definition validateText :: "(jsstring \<Rightarrow> parse_outcome) \<Rightarrow> jsstring \<Rightarrow> jsvalue + diagnostic list" where
  "validateText parseYaml text =
     (if trim text = [] then Inr []
      else
        (case parseYamlText parseYaml text of
           Inl x \<Rightarrow> Inl x
         | Inr r \<Rightarrow>
            (case error r of
               Some e \<Rightarrow>
                 Inr [createDiagnostic Error (error_line e) (msg_syntax_prefix @ err_message e)]
             | None \<Rightarrow>
                 if typeof (parsed r) \<noteq> ascii ''object'' \<or> parsed r = JNull \<or> isArray (parsed r)
                 then Inr [createDiagnostic Error 0 msg_root_object]
                 else Inr (validateConfig (as_record (parsed r)) text))))"

section \<open>Notions used to state the properties\<close>

text \<open>A text is blank when each of its code units is white space.\<close>

definition blank :: "jsstring \<Rightarrow> bool" where
  "blank text \<longleftrightarrow> list_all is_space text"

text \<open>
  The findings of \<open>validateConfig\<close>, group by group in the order of the source: the
  missing required fields, the three type checks on top-level fields, and the checks
  under \<open>settings\<close>. \<open>validateConfig_parts\<close> below shows that the source's function is
  their concatenation.
\<close>

definition required_part :: "jsrecord \<Rightarrow> diagnostic list" where
  "required_part config =
     map (\<lambda>f. createDiagnostic Error 0 (msg_required f))
       (filter (\<lambda>f. \<not> has_key f config) REQUIRED_FIELDS)"

definition type_part ::
  "jsstring \<Rightarrow> jsstring \<Rightarrow> DiagnosticSeverity \<Rightarrow> jsstring \<Rightarrow> jsrecord \<Rightarrow> jsstring \<Rightarrow> diagnostic list" where
  "type_part key ty sev msg r text =
     (if has_key key r \<and> typeof (get_prop r key) \<noteq> ty
      then [createDiagnostic sev (int (line_of (findLineForKey text key))) msg] else [])"

definition negative_part :: "jsrecord \<Rightarrow> jsstring \<Rightarrow> diagnostic list" where
  "negative_part s text =
     (if has_key (ascii ''retries'') s \<and>
         typeof (get_prop s (ascii ''retries'')) = ascii ''number'' \<and>
         lt_zero (get_prop s (ascii ''retries''))
      then [createDiagnostic Warning (int (line_of (findLineForKey text (ascii ''retries''))))
              msg_retries_negative]
      else [])"

definition settings_part :: "jsrecord \<Rightarrow> jsstring \<Rightarrow> diagnostic list" where
  "settings_part config text =
     (if has_key (ascii ''settings'') config then
        (if typeof (get_prop config (ascii ''settings'')) \<noteq> ascii ''object'' \<or>
            get_prop config (ascii ''settings'') = JNull
         then [createDiagnostic Error (int (line_of (findLineForKey text (ascii ''settings''))))
                 msg_settings_object]
         else type_part (ascii ''timeout'') (ascii ''number'') Warning msg_timeout_number
                (as_record (get_prop config (ascii ''settings''))) text @
              type_part (ascii ''retries'') (ascii ''number'') Warning msg_retries_number
                (as_record (get_prop config (ascii ''settings''))) text @
              negative_part (as_record (get_prop config (ascii ''settings''))) text)
      else [])"

text \<open>The declared type of a field, read from \<open>FIELD_DOCS\<close>.\<close>

definition declared_type :: "jsstring \<Rightarrow> jsstring" where
  "declared_type f = (case FIELD_DOCS f of Some d \<Rightarrow> type d | None \<Rightarrow> [])"


text \<open>
  A finding confined to one line: from character 0 to character 1000 of the same line,
  with the server's source tag.
\<close>

definition single_line :: "diagnostic \<Rightarrow> bool" where
  "single_line d \<longleftrightarrow>
     source d = ascii ''myconfig-lsp'' \<and>
     line (start (range_d d)) = line (end_t (range_d d)) \<and>
     character (start (range_d d)) = 0 \<and>
     character (end_t (range_d d)) = 1000"

text \<open>
  The messages of the findings reported as errors and of those reported as warnings by
  \<open>validateConfig\<close>, and the rule that a finding with such a message has that
  severity.
\<close>

definition error_messages :: "jsstring list" where
  "error_messages =
     [msg_required (ascii ''name''), msg_required (ascii ''version''),
      msg_name_string, msg_version_string, msg_settings_object]"

definition warning_messages :: "jsstring list" where
  "warning_messages =
     [msg_enabled_boolean, msg_timeout_number, msg_retries_number, msg_retries_negative]"

definition severity_by_message :: "diagnostic \<Rightarrow> bool" where
  "severity_by_message d \<longleftrightarrow>
     (message d \<in> set error_messages \<longrightarrow> severity d = Error) \<and>
     (message d \<in> set warning_messages \<longrightarrow> severity d = Warning)"

text \<open>
  What a diagnostic reports, as the specification's finding has it: the severity, the
  line (where the range starts) and the message.
\<close>

definition finding :: "diagnostic \<Rightarrow> DiagnosticSeverity \<times> int \<times> jsstring" where
  "finding d = (severity d, line (start (range_d d)), message d)"


text \<open>Joining lines with line feeds, the inverse of splitting.\<close>

fun join_nl :: "jsstring list \<Rightarrow> jsstring" where
  "join_nl [] = []"
| "join_nl [l] = l"
| "join_nl (l # ls) = l @ 0xA # join_nl ls"

section \<open>Sample documents\<close>



definition dotted_doc :: jsstring where
  "dotted_doc = ascii ''abc: 1'' @ [0xA] @ ascii ''a.c: 2''"


definition nested_doc :: jsstring where
  "nested_doc =
     ascii ''name: test'' @ [0xA] @ ascii ''settings:'' @ [0xA] @
     ascii ''  timeout: 30'' @ [0xA] @ ascii ''  retries: 3''"

definition missing_name_config :: jsrecord where
  "missing_name_config = [ascii ''version'' \<mapsto> JStr (ascii ''1.0.0'')]"

definition missing_name_doc :: jsstring where
  "missing_name_doc = ascii ''version: '' @ [0x22] @ ascii ''1.0.0'' @ [0x22]"

definition wrong_version_config :: jsrecord where
  "wrong_version_config =
     [ascii ''name'' \<mapsto> JStr (ascii ''test''), ascii ''version'' \<mapsto> JNum (Finite 1)]"

definition wrong_version_doc :: jsstring where
  "wrong_version_doc = ascii ''name: test'' @ [0xA] @ ascii ''version: 1.0''"



definition invalid_settings_config :: jsrecord where
  "invalid_settings_config =
     [ascii ''name'' \<mapsto> JStr (ascii ''test''), ascii ''version'' \<mapsto> JStr (ascii ''1.0.0''),
      ascii ''settings'' \<mapsto> JStr (ascii ''invalid'')]"

definition invalid_settings_doc :: jsstring where
  "invalid_settings_doc =
     ascii ''name: test'' @ [0xA] @ ascii ''version: '' @ [0x22] @ ascii ''1.0.0'' @ [0x22, 0xA] @
     ascii ''settings: invalid''"

definition enabled_yes_config :: jsrecord where
  "enabled_yes_config =
     [ascii ''name'' \<mapsto> JStr (ascii ''test''), ascii ''version'' \<mapsto> JStr (ascii ''1.0.0''),
      ascii ''enabled'' \<mapsto> JStr (ascii ''yes'')]"

definition enabled_yes_doc :: jsstring where
  "enabled_yes_doc =
     ascii ''name: test'' @ [0xA] @ ascii ''version: '' @ [0x22] @ ascii ''1.0.0'' @ [0x22, 0xA] @
     ascii ''enabled: '' @ [0x22] @ ascii ''yes'' @ [0x22]"

section \<open>The structure of the validator's result\<close>

lemma required_loop_append:
  "required_loop config fs ds =
     ds @ map (\<lambda>f. createDiagnostic Error 0 (msg_required f))
            (filter (\<lambda>f. \<not> has_key f config) fs)"
  by (induction fs arbitrary: ds) simp_all

lemma push_if: "(if c then ds @ [x] else ds) = ds @ (if c then [x] else [])"
  by simp

lemma validateConfig_parts:
  "validateConfig config text =
     required_part config @
     type_part (ascii ''name'') (ascii ''string'') Error msg_name_string config text @
     type_part (ascii ''version'') (ascii ''string'') Error msg_version_string config text @
     type_part (ascii ''enabled'') (ascii ''boolean'') Warning msg_enabled_boolean config text @
     settings_part config text"
proof -
  have "validateConfig config text =
     (required_part config @
      type_part (ascii ''name'') (ascii ''string'') Error msg_name_string config text @
      type_part (ascii ''version'') (ascii ''string'') Error msg_version_string config text @
      type_part (ascii ''enabled'') (ascii ''boolean'') Warning msg_enabled_boolean config text) @
     settings_part config text"
    unfolding validateConfig_def
    apply (simp only: push_if)
    apply (simp only: Let_def required_loop_append append_Nil)
    apply (simp only: required_part_def [symmetric] type_part_def [symmetric]
        negative_part_def [symmetric] settings_part_def append_assoc)
    apply simp
    done
  then show ?thesis by (simp only: append_assoc)
qed

text \<open>\<open>createDiagnostic\<close> reports what it is given.\<close>

lemma finding_createDiagnostic: "finding (createDiagnostic sev l m) = (sev, l, m)"
  by (simp add: finding_def createDiagnostic_def)

lemma line_of_Some [simp]: "line_of (Some i) = i"
  by (simp add: line_of_def)

lemma trim_Nil_iff: "trim text = [] \<longleftrightarrow> blank text"
proof
  assume "trim text = []"
  then have "dropWhile is_space (rev (dropWhile is_space text)) = []"
    by (simp add: trim_def)
  then have "\<forall>c \<in> set (rev (dropWhile is_space text)). is_space c"
    by (rule dropWhile_eq_Nil_conv [THEN iffD1])
  then have a: "\<forall>c \<in> set (dropWhile is_space text). is_space c"
    by (simp only: set_rev)
  have b: "\<forall>c \<in> set (takeWhile is_space text). is_space c"
    by (meson set_takeWhileD)
  have "set text = set (takeWhile is_space text) \<union> set (dropWhile is_space text)"
    by (metis set_append takeWhile_dropWhile_id)
  with a b show "blank text"
    unfolding blank_def list_all_iff by blast
next
  assume "blank text"
  then have "\<forall>c \<in> set text. is_space c"
    unfolding blank_def list_all_iff .
  then have "dropWhile is_space text = []"
    by (rule dropWhile_eq_Nil_conv [THEN iffD2])
  then show "trim text = []"
    unfolding trim_def by (simp only: rev.simps dropWhile.simps)
qed

text \<open>
  Claim C3. For a text that is empty or consists of white space only, \<open>validateText\<close>
  returns the empty list of findings, whatever the parser would do with it: nothing is
  reported, not even the missing required fields.
\<close>

theorem C3_blank_text_no_findings:
  "blank text \<Longrightarrow> validateText parseYaml text = Inr []"
  by (simp add: validateText_def trim_Nil_iff)

text \<open>
  The theorem at the white-space document of the tests: three spaces, two line feeds,
  three spaces.
\<close>

theorem C3_witness:
  "blank [0x20, 0x20, 0x20, 0xA, 0xA, 0x20, 0x20, 0x20] \<and>
   validateText (\<lambda>t. Returns JNull) [0x20, 0x20, 0x20, 0xA, 0xA, 0x20, 0x20, 0x20] = Inr []"
  using C3_blank_text_no_findings
    [of "[0x20, 0x20, 0x20, 0xA, 0xA, 0x20, 0x20, 0x20]" "\<lambda>t. Returns JNull"]
  by (simp add: blank_def is_space_def)



lemma typeof_object_cases:
  "typeof v = ascii ''object'' \<longleftrightarrow>
     v = JNull \<or> (\<exists>xs. v = JArr xs) \<or> (\<exists>m. v = JObj m) \<or> (\<exists>b. v = JBinary b)"
  by (cases v) (simp_all add: ascii_def)




lemma single_line_createDiagnostic: "single_line (createDiagnostic sev l m)"
  by (simp add: single_line_def createDiagnostic_def)

lemma single_line_type_part: "d \<in> set (type_part key ty sev msg r text) \<Longrightarrow> single_line d"
  by (auto simp: type_part_def single_line_createDiagnostic split: if_splits)

lemma single_line_required_part: "d \<in> set (required_part config) \<Longrightarrow> single_line d"
  by (auto simp: required_part_def single_line_createDiagnostic)

lemma single_line_negative_part: "d \<in> set (negative_part s text) \<Longrightarrow> single_line d"
  by (auto simp: negative_part_def single_line_createDiagnostic split: if_splits)

lemma single_line_settings_part: "d \<in> set (settings_part config text) \<Longrightarrow> single_line d"
  unfolding settings_part_def
  by (auto simp: single_line_createDiagnostic split: if_splits
      dest: single_line_type_part single_line_negative_part)

lemma single_line_validateConfig: "d \<in> set (validateConfig config text) \<Longrightarrow> single_line d"
  unfolding validateConfig_parts
  by (auto dest: single_line_type_part single_line_required_part single_line_settings_part)

text \<open>
  Claim C10. Every finding of \<open>validateConfig\<close> and of \<open>validateText\<close> carries the
  source tag of the server and a range within one line: start line and end line are
  the reported line, the start character is 0 and the end character is 1000.
\<close>

theorem C10_findings_single_line:
  "(\<forall>d \<in> set (validateConfig config text). single_line d) \<and>
   (\<forall>ds. validateText parseYaml text = Inr ds \<longrightarrow> (\<forall>d \<in> set ds. single_line d))"
proof (intro conjI allI impI ballI)
  fix d assume "d \<in> set (validateConfig config text)"
  then show "single_line d" by (rule single_line_validateConfig)
next
  fix ds d
  assume "validateText parseYaml text = Inr ds" and "d \<in> set ds"
  then show "single_line d"
    by (auto simp: validateText_def single_line_createDiagnostic
        split: if_splits sum.splits option.splits dest: single_line_validateConfig)
qed

text \<open>
  The theorem at the empty record and the empty text: there are findings, and each is
  confined to its line.
\<close>

theorem C10_witness:
  "validateConfig Map.empty [] =
     [createDiagnostic Error 0 (msg_required (ascii ''name'')),
      createDiagnostic Error 0 (msg_required (ascii ''version''))] \<and>
   single_line (createDiagnostic Error 0 (msg_required (ascii ''name''))) \<and>
   single_line (createDiagnostic Error 0 (msg_required (ascii ''version''))) \<and>
   validateText (\<lambda>t. Returns (JArr [])) (ascii ''[]'') =
     Inr [createDiagnostic Error 0 msg_root_object] \<and>
   single_line (createDiagnostic Error 0 msg_root_object)"
proof -
  have v: "validateText (\<lambda>t. Returns (JArr [])) (ascii ''[]'') =
      Inr [createDiagnostic Error 0 msg_root_object]"
    by (simp add: validateText_def trim_def is_space_def ascii_def parseYamlText_def)
  have c: "validateConfig Map.empty [] =
     [createDiagnostic Error 0 (msg_required (ascii ''name'')),
      createDiagnostic Error 0 (msg_required (ascii ''version''))]"
    by (simp add: validateConfig_parts required_part_def type_part_def settings_part_def
        REQUIRED_FIELDS_def has_key_def)
  from C10_findings_single_line [of Map.empty "[]" "\<lambda>t. Returns (JArr [])"]
    C10_findings_single_line [of Map.empty "ascii ''[]''" "\<lambda>t. Returns (JArr [])"] v c
  show ?thesis by simp
qed

section \<open>Lines of a text and the first matching line\<close>

text \<open>
  Splitting is the inverse of joining with line feeds, and no line holds a line feed:
  \<open>split_nl\<close> yields the lines of the text.
\<close>

lemma split_nl_not_Nil: "split_nl t \<noteq> []"
  by (induction t) (auto split: list.splits)

lemma join_split_nl: "join_nl (split_nl t) = t"
proof (induction t)
  case Nil
  then show ?case by simp
next
  case (Cons c cs)
  obtain l ls where s: "split_nl cs = l # ls"
    using split_nl_not_Nil [of cs] by (cases "split_nl cs") auto
  show ?case
  proof (cases "c = 0xA")
    case True
    with Cons s show ?thesis by simp
  next
    case False
    with Cons s show ?thesis by (cases ls) auto
  qed
qed

lemma split_nl_no_line_feed: "l \<in> set (split_nl t) \<Longrightarrow> 0xA \<notin> set l"
proof (induction t arbitrary: l)
  case Nil
  then show ?case by simp
next
  case (Cons c cs)
  obtain l' ls where s: "split_nl cs = l' # ls"
    using split_nl_not_Nil [of cs] by (cases "split_nl cs") auto
  from Cons.IH [of l'] s have l': "0xA \<notin> set l'" by simp
  from Cons.IH s have ls: "\<And>x. x \<in> set ls \<Longrightarrow> 0xA \<notin> set x" by simp
  show ?case
  proof (cases "c = 0xA")
    case True
    with Cons.prems s l' ls show ?thesis by auto
  next
    case False
    with Cons.prems s l' ls show ?thesis by auto
  qed
qed

lemma colon_not_space: "\<not> is_space 0x3A"
  by (simp add: is_space_def)

text \<open>A key of plain characters is matched as a prefix.\<close>

lemma match_atoms_Lit:
  "match_atoms (map Lit key) s = (if prefix key s then Some (drop (length key) s) else None)"
proof (induction key arbitrary: s)
  case Nil
  then show ?case by simp
next
  case (Cons a key)
  then show ?case by (cases s) auto
qed

lemma key_then_colon_iff:
  "key_then_colon (map Lit key) s \<longleftrightarrow>
     (\<exists>ws2 rest. s = key @ ws2 @ 0x3A # rest \<and> list_all is_space ws2)"
proof
  assume k: "key_then_colon (map Lit key) s"
  then have "prefix key s"
    by (auto simp: key_then_colon_def match_atoms_Lit split: if_splits)
  then obtain r where s: "s = key @ r"
    by (auto simp: prefix_def)
  with k obtain rest where d: "dropWhile is_space r = 0x3A # rest"
    by (auto simp: key_then_colon_def match_atoms_Lit split: list.splits)
  have "r = takeWhile is_space r @ dropWhile is_space r"
    by (rule takeWhile_dropWhile_id [symmetric])
  with d have "r = takeWhile is_space r @ 0x3A # rest" by simp
  moreover have "list_all is_space (takeWhile is_space r)"
    unfolding list_all_iff by (meson set_takeWhileD)
  ultimately show "\<exists>ws2 rest. s = key @ ws2 @ 0x3A # rest \<and> list_all is_space ws2"
    using s by blast
next
  assume "\<exists>ws2 rest. s = key @ ws2 @ 0x3A # rest \<and> list_all is_space ws2"
  then obtain ws2 rest where s: "s = key @ ws2 @ 0x3A # rest" and w: "list_all is_space ws2"
    by blast
  from w have "dropWhile is_space (ws2 @ 0x3A # rest) = dropWhile is_space (0x3A # rest)"
    by (intro dropWhile_append2) (simp add: list_all_iff)
  then have "dropWhile is_space (ws2 @ 0x3A # rest) = 0x3A # rest"
    by (simp add: colon_not_space)
  with s show "key_then_colon (map Lit key) s"
    by (simp add: key_then_colon_def match_atoms_Lit)
qed

text \<open>
  For a key of plain characters the matcher of the source accepts exactly the lines
  the specification describes.
\<close>

lemma regex_test_iff_spec: "regex_test (map Lit key) l \<longleftrightarrow> spec_key_line key l"
proof
  assume "regex_test (map Lit key) l"
  then have "\<exists>n \<in> set [0..<Suc (length (takeWhile is_space l))].
      key_then_colon (map Lit key) (drop n l)"
    unfolding regex_test_def list_ex_iff .
  then obtain n where n': "n \<in> set [0..<Suc (length (takeWhile is_space l))]"
    and k: "key_then_colon (map Lit key) (drop n l)"
    by blast
  from n' have n: "n \<le> length (takeWhile is_space l)" by auto
  from k obtain ws2 rest where d: "drop n l = key @ ws2 @ 0x3A # rest"
    and w2: "list_all is_space ws2"
    unfolding key_then_colon_iff by blast
  have "take n l = take n (takeWhile is_space l @ dropWhile is_space l)" by simp
  also have "\<dots> = take n (takeWhile is_space l)" using n by (simp only: take_append) simp
  finally have "set (take n l) \<subseteq> set (takeWhile is_space l)"
    by (simp add: set_take_subset)
  then have w1: "list_all is_space (take n l)"
    unfolding list_all_iff by (meson set_takeWhileD subsetD)
  have "l = take n l @ drop n l" by simp
  with d have "l = take n l @ key @ ws2 @ 0x3A # rest" by simp
  with w1 w2 show "spec_key_line key l"
    unfolding spec_key_line_def by blast
next
  assume "spec_key_line key l"
  then obtain ws1 ws2 rest where l: "l = ws1 @ key @ ws2 @ 0x3A # rest"
    and w1: "list_all is_space ws1" and w2: "list_all is_space ws2"
    unfolding spec_key_line_def by blast
  from w1 have "takeWhile is_space l = ws1 @ takeWhile is_space (key @ ws2 @ 0x3A # rest)"
    unfolding l by (intro takeWhile_append2) (simp add: list_all_iff)
  then have n: "length ws1 \<le> length (takeWhile is_space l)" by simp
  have "drop (length ws1) l = key @ ws2 @ 0x3A # rest" by (simp add: l)
  with w2 have "key_then_colon (map Lit key) (drop (length ws1) l)"
    unfolding key_then_colon_iff by blast
  moreover from n have "length ws1 \<in> set [0..<Suc (length (takeWhile is_space l))]"
    by auto
  ultimately show "regex_test (map Lit key) l"
    unfolding regex_test_def list_ex_iff by blast
qed

lemma find_first_None: "find_first t ls i = None \<longleftrightarrow> (\<forall>j < length ls. \<not> t (ls ! j))"
proof (induction ls arbitrary: i)
  case Nil
  then show ?case by simp
next
  case (Cons l ls)
  show ?case
    by (simp add: Cons.IH All_less_Suc2)
qed

lemma find_first_Some:
  "find_first t ls i = Some r \<Longrightarrow>
     i \<le> r \<and> r - i < length ls \<and> t (ls ! (r - i)) \<and> (\<forall>j < r - i. \<not> t (ls ! j))"
proof (induction ls arbitrary: i)
  case Nil
  then show ?case by simp
next
  case (Cons l ls)
  show ?case
  proof (cases "t l")
    case True
    with Cons.prems show ?thesis by simp
  next
    case False
    with Cons.prems have "find_first t ls (Suc i) = Some r" by simp
    from Cons.IH [OF this]
    have a: "Suc i \<le> r" and b: "r - Suc i < length ls" and c: "t (ls ! (r - Suc i))"
      and d: "\<forall>j < r - Suc i. \<not> t (ls ! j)" by blast+
    from a have e: "r - i = Suc (r - Suc i)" by simp
    show ?thesis
      using a b c d False unfolding e by (auto simp: less_Suc_eq_0_disj)
  qed
qed

text \<open>A key without pattern syntax compiles to its own characters.\<close>

lemma compile_key_literal: "literal_key key \<Longrightarrow> compile_key key = Some (map Lit key)"
proof (induction key)
  case Nil
  then show ?case by simp
next
  case (Cons c key)
  from Cons.prems have c: "c \<notin> set pattern_syntax" and k: "literal_key key"
    by (simp_all add: literal_key_def)
  have "0x2E \<in> set pattern_syntax"
    by (simp add: pattern_syntax_def ascii_def)
  with c have "c \<noteq> 0x2E" by blast
  with c Cons.IH [OF k] show ?case by simp
qed

lemma findLineForKey_literal:
  "literal_key key \<Longrightarrow>
   findLineForKey text key =
     Some (case find_first (regex_test (map Lit key)) (split_nl text) 0 of
             Some i \<Rightarrow> i | None \<Rightarrow> 0)"
  by (simp add: findLineForKey_def compile_key_literal)

text \<open>
  Claim C6, amended. For a key without pattern syntax, \<open>findLineForKey\<close> returns the
  0-based index of the first line that reads: optional white space, the key, optional
  white space, a colon; at any indentation. That is, when some line matches, the
  result is a matching line and no line before it matches; when no line matches, the
  result is 0. On the document with \<open>name\<close> on line 0, \<open>settings:\<close> on line 1,
  an indented \<open>timeout\<close> on line 2 and \<open>retries\<close> on line 3 it returns 2 for
  \<open>timeout\<close>, 3 for \<open>retries\<close> and 0 for a name that is not in the text.
\<close>

theorem C6_findLineForKey_first_match:
  "literal_key key \<Longrightarrow>
   (\<exists>r. findLineForKey text key = Some r \<and>
      (\<forall>i < length (split_nl text). spec_key_line key (split_nl text ! i) \<longrightarrow>
         r \<le> i \<and> spec_key_line key (split_nl text ! r)) \<and>
      ((\<forall>i < length (split_nl text). \<not> spec_key_line key (split_nl text ! i)) \<longrightarrow> r = 0)) \<and>
   findLineForKey nested_doc (ascii ''timeout'') = Some 2 \<and>
   findLineForKey nested_doc (ascii ''retries'') = Some 3 \<and>
   findLineForKey nested_doc (ascii ''nonexistent'') = Some 0"
proof (intro conjI)
  assume lit: "literal_key key"
  define r where "r = (case find_first (regex_test (map Lit key)) (split_nl text) 0 of
      Some i \<Rightarrow> i | None \<Rightarrow> 0)"
  have f: "findLineForKey text key = Some r"
    unfolding r_def by (rule findLineForKey_literal [OF lit])
  have first: "r \<le> i \<and> spec_key_line key (split_nl text ! r)"
    if i: "i < length (split_nl text)" and m: "spec_key_line key (split_nl text ! i)" for i
  proof -
    from i m have "find_first (regex_test (map Lit key)) (split_nl text) 0 \<noteq> None"
      unfolding find_first_None regex_test_iff_spec by blast
    then obtain q where q: "find_first (regex_test (map Lit key)) (split_nl text) 0 = Some q"
      by blast
    then have rq: "r = q" by (simp add: r_def)
    from find_first_Some [OF q]
    have "regex_test (map Lit key) (split_nl text ! q)"
      and "\<forall>j < q. \<not> regex_test (map Lit key) (split_nl text ! j)"
      by simp_all
    with m show ?thesis
      unfolding rq regex_test_iff_spec by (auto simp: not_less [symmetric])
  qed
  have none: "r = 0"
    if "\<forall>i < length (split_nl text). \<not> spec_key_line key (split_nl text ! i)"
  proof -
    from that have "find_first (regex_test (map Lit key)) (split_nl text) 0 = None"
      unfolding find_first_None regex_test_iff_spec .
    then show ?thesis by (simp add: r_def)
  qed
  from f first none
  show "\<exists>r. findLineForKey text key = Some r \<and>
      (\<forall>i < length (split_nl text). spec_key_line key (split_nl text ! i) \<longrightarrow>
         r \<le> i \<and> spec_key_line key (split_nl text ! r)) \<and>
      ((\<forall>i < length (split_nl text). \<not> spec_key_line key (split_nl text ! i)) \<longrightarrow> r = 0)"
    by blast
next
  show "findLineForKey nested_doc (ascii ''timeout'') = Some 2" by code_simp
next
  show "findLineForKey nested_doc (ascii ''retries'') = Some 3" by code_simp
next
  show "findLineForKey nested_doc (ascii ''nonexistent'') = Some 0" by code_simp
qed

text \<open>
  The amended theorem at the nested document: line 2 matches \<open>timeout\<close>, so the
  result is line 2, a matching line; no line matches \<open>nonexistent\<close>, so the result
  is 0.
\<close>

theorem C6_witness:
  "literal_key (ascii ''timeout'') \<and>
   spec_key_line (ascii ''timeout'') (split_nl nested_doc ! 2) \<and>
   findLineForKey nested_doc (ascii ''timeout'') = Some 2 \<and>
   literal_key (ascii ''nonexistent'') \<and>
   findLineForKey nested_doc (ascii ''nonexistent'') = Some 0"
proof -
  have l: "literal_key (ascii ''timeout'')"
    by (simp add: literal_key_def pattern_syntax_def ascii_def)
  have "regex_test (map Lit (ascii ''timeout'')) (split_nl nested_doc ! 2)"
    by code_simp
  then have m: "spec_key_line (ascii ''timeout'') (split_nl nested_doc ! 2)"
    unfolding regex_test_iff_spec .
  have l': "literal_key (ascii ''nonexistent'')"
    by (simp add: literal_key_def pattern_syntax_def ascii_def)
  from C6_findLineForKey_first_match [OF l, of nested_doc]
    C6_findLineForKey_first_match [OF l', of nested_doc] l l' m
  show ?thesis by blast
qed

text \<open>
  Claim C6 as stated fails for a field name with pattern syntax, since the key is
  spliced into the pattern unescaped. For the key \<open>a.c\<close> and the document with
  \<open>abc: 1\<close> on line 0 and \<open>a.c: 2\<close> on line 1, the dot matches the \<open>b\<close>: the
  function returns 0, though line 0 does not hold the field name and line 1 is the
  first line that does.
\<close>

theorem C6_counterexample:
  "findLineForKey dotted_doc (ascii ''a.c'') = Some 0 \<and>
   \<not> spec_key_line (ascii ''a.c'') (split_nl dotted_doc ! 0) \<and>
   spec_key_line (ascii ''a.c'') (split_nl dotted_doc ! 1)"
proof -
  have "findLineForKey dotted_doc (ascii ''a.c'') = Some 0"
    by code_simp
  moreover have "\<not> regex_test (map Lit (ascii ''a.c'')) (split_nl dotted_doc ! 0)"
    by code_simp
  moreover have "regex_test (map Lit (ascii ''a.c'')) (split_nl dotted_doc ! 1)"
    by code_simp
  ultimately show ?thesis
    unfolding regex_test_iff_spec by simp
qed

section \<open>The findings of the record validator\<close>

text \<open>The message texts are pairwise different, which lets a finding be told by its message.\<close>

lemmas msg_defs = msg_name_string_def msg_version_string_def msg_enabled_boolean_def
  msg_settings_object_def msg_timeout_number_def msg_retries_number_def
  msg_retries_negative_def must_be_def ascii_def

lemma msgs_distinct:
  "distinct [msg_name_string, msg_version_string, msg_enabled_boolean, msg_settings_object,
     msg_timeout_number, msg_retries_number, msg_retries_negative]"
  by (simp add: msg_defs)

lemma msg_required_not_quoted:
  "msg_required f \<notin> set [msg_name_string, msg_version_string, msg_enabled_boolean,
     msg_settings_object, msg_timeout_number, msg_retries_number, msg_retries_negative]"
  by (simp add: msg_required_def msg_defs)

lemma msg_required_inj: "msg_required f = msg_required g \<Longrightarrow> f = g"
  by (simp add: msg_required_def)

lemma message_createDiagnostic [simp]: "message (createDiagnostic sev l m) = m"
  by (simp add: createDiagnostic_def)

lemma severity_createDiagnostic [simp]: "severity (createDiagnostic sev l m) = sev"
  by (simp add: createDiagnostic_def)

lemma filter_type_part:
  "filter (\<lambda>d. message d = m) (type_part key ty sev msg r text) =
     (if m = msg then type_part key ty sev msg r text else [])"
  by (auto simp: type_part_def)

lemma filter_negative_part:
  "filter (\<lambda>d. message d = m) (negative_part s text) =
     (if m = msg_retries_negative then negative_part s text else [])"
  by (auto simp: negative_part_def)

lemma filter_required_part:
  "\<forall>f. m \<noteq> msg_required f \<Longrightarrow> filter (\<lambda>d. message d = m) (required_part config) = []"
  by (auto simp: required_part_def filter_empty_conv)

lemma filter_settings_part:
  "m \<noteq> msg_settings_object \<Longrightarrow> m \<noteq> msg_timeout_number \<Longrightarrow> m \<noteq> msg_retries_number \<Longrightarrow>
   m \<noteq> msg_retries_negative \<Longrightarrow> filter (\<lambda>d. message d = m) (settings_part config text) = []"
  by (simp add: settings_part_def filter_type_part filter_negative_part)

lemma quoted_not_required:
  "msg_name_string \<noteq> msg_required f" "msg_version_string \<noteq> msg_required f"
  "msg_enabled_boolean \<noteq> msg_required f" "msg_settings_object \<noteq> msg_required f"
  "msg_timeout_number \<noteq> msg_required f" "msg_retries_number \<noteq> msg_required f"
  "msg_retries_negative \<noteq> msg_required f"
  using msg_required_not_quoted [of f] by auto

lemma declared_types:
  "declared_type (ascii ''name'') = ascii ''string''"
  "declared_type (ascii ''version'') = ascii ''string''"
  "declared_type (ascii ''enabled'') = ascii ''boolean''"
  by (simp_all add: declared_type_def FIELD_DOCS_def ascii_def)

lemma filter_name:
  "filter (\<lambda>d. message d = msg_name_string) (validateConfig config text) =
     type_part (ascii ''name'') (ascii ''string'') Error msg_name_string config text"
  using msgs_distinct
  by (auto simp: validateConfig_parts filter_type_part filter_required_part
      filter_settings_part quoted_not_required)

lemma filter_version:
  "filter (\<lambda>d. message d = msg_version_string) (validateConfig config text) =
     type_part (ascii ''version'') (ascii ''string'') Error msg_version_string config text"
  using msgs_distinct
  by (auto simp: validateConfig_parts filter_type_part filter_required_part
      filter_settings_part quoted_not_required)

lemma filter_enabled:
  "filter (\<lambda>d. message d = msg_enabled_boolean) (validateConfig config text) =
     type_part (ascii ''enabled'') (ascii ''boolean'') Warning msg_enabled_boolean config text"
  using msgs_distinct
  by (auto simp: validateConfig_parts filter_type_part filter_required_part
      filter_settings_part quoted_not_required)

text \<open>The six schema names hold no pattern syntax.\<close>

lemma schema_names_literal:
  "literal_key (ascii ''name'')" "literal_key (ascii ''version'')"
  "literal_key (ascii ''enabled'')" "literal_key (ascii ''settings'')"
  "literal_key (ascii ''timeout'')" "literal_key (ascii ''retries'')"
  by (simp_all add: literal_key_def pattern_syntax_def ascii_def)

text \<open>
  Claim C2. For each of the fields \<open>name\<close>, \<open>version\<close>, \<open>enabled\<close>: when the
  field is present in the record and the type of its value differs from the type
  declared for it in \<open>FIELD_DOCS\<close> (string, string, boolean), \<open>validateConfig\<close>
  yields exactly one finding with that field's type message, and it is on the line
  \<open>findLineForKey\<close> returns for the text and the field; when the field is absent or
  has the declared type, it yields no finding with that message.
\<close>

theorem C2_type_findings:
  "\<exists>ln lv le.
     findLineForKey text (ascii ''name'') = Some ln \<and>
     findLineForKey text (ascii ''version'') = Some lv \<and>
     findLineForKey text (ascii ''enabled'') = Some le \<and>
     map finding (filter (\<lambda>d. message d = msg_name_string) (validateConfig config text)) =
       (if has_key (ascii ''name'') config \<and>
           typeof (get_prop config (ascii ''name'')) \<noteq> declared_type (ascii ''name'')
        then [(Error, int ln, msg_name_string)] else []) \<and>
     map finding (filter (\<lambda>d. message d = msg_version_string) (validateConfig config text)) =
       (if has_key (ascii ''version'') config \<and>
           typeof (get_prop config (ascii ''version'')) \<noteq> declared_type (ascii ''version'')
        then [(Error, int lv, msg_version_string)] else []) \<and>
     map finding (filter (\<lambda>d. message d = msg_enabled_boolean) (validateConfig config text)) =
       (if has_key (ascii ''enabled'') config \<and>
           typeof (get_prop config (ascii ''enabled'')) \<noteq> declared_type (ascii ''enabled'')
        then [(Warning, int le, msg_enabled_boolean)] else []) \<and>
     declared_type (ascii ''name'') = ascii ''string'' \<and>
     declared_type (ascii ''version'') = ascii ''string'' \<and>
     declared_type (ascii ''enabled'') = ascii ''boolean''"
proof -
  obtain ln where ln: "findLineForKey text (ascii ''name'') = Some ln"
    using findLineForKey_literal [OF schema_names_literal(1)] by blast
  obtain lv where lv: "findLineForKey text (ascii ''version'') = Some lv"
    using findLineForKey_literal [OF schema_names_literal(2)] by blast
  obtain le where le: "findLineForKey text (ascii ''enabled'') = Some le"
    using findLineForKey_literal [OF schema_names_literal(3)] by blast
  have n: "map finding (filter (\<lambda>d. message d = msg_name_string) (validateConfig config text)) =
       (if has_key (ascii ''name'') config \<and>
           typeof (get_prop config (ascii ''name'')) \<noteq> declared_type (ascii ''name'')
        then [(Error, int ln, msg_name_string)] else [])"
    unfolding filter_name declared_types type_part_def
    by (simp add: finding_createDiagnostic ln)
  have v: "map finding (filter (\<lambda>d. message d = msg_version_string) (validateConfig config text)) =
       (if has_key (ascii ''version'') config \<and>
           typeof (get_prop config (ascii ''version'')) \<noteq> declared_type (ascii ''version'')
        then [(Error, int lv, msg_version_string)] else [])"
    unfolding filter_version declared_types type_part_def
    by (simp add: finding_createDiagnostic lv)
  have e: "map finding (filter (\<lambda>d. message d = msg_enabled_boolean) (validateConfig config text)) =
       (if has_key (ascii ''enabled'') config \<and>
           typeof (get_prop config (ascii ''enabled'')) \<noteq> declared_type (ascii ''enabled'')
        then [(Warning, int le, msg_enabled_boolean)] else [])"
    unfolding filter_enabled declared_types type_part_def
    by (simp add: finding_createDiagnostic le)
  from ln lv le n v e declared_types show ?thesis by blast
qed

lemma wrong_version_line: "findLineForKey wrong_version_doc (ascii ''version'') = Some 1"
  by code_simp

text \<open>
  The theorem at the tests' record with a numeric \<open>version\<close>: one finding for
  \<open>version\<close>, on line 1 where the key stands, and none for the well-typed
  \<open>name\<close>.
\<close>

theorem C2_witness:
  "findLineForKey wrong_version_doc (ascii ''version'') = Some 1 \<and>
   has_key (ascii ''version'') wrong_version_config \<and>
   typeof (get_prop wrong_version_config (ascii ''version'')) = ascii ''number'' \<and>
   map finding (filter (\<lambda>d. message d = msg_version_string)
     (validateConfig wrong_version_config wrong_version_doc)) =
     [(Error, 1, msg_version_string)] \<and>
   map finding (filter (\<lambda>d. message d = msg_name_string)
     (validateConfig wrong_version_config wrong_version_doc)) = []"
proof -
  have h: "has_key (ascii ''version'') wrong_version_config"
    by (simp add: wrong_version_config_def has_key_def)
  have t: "typeof (get_prop wrong_version_config (ascii ''version'')) = ascii ''number''"
    by (simp add: wrong_version_config_def get_prop_def)
  have ne: "ascii ''number'' \<noteq> declared_type (ascii ''version'')"
    by (simp add: declared_type_def FIELD_DOCS_def ascii_def)
  have "typeof (get_prop wrong_version_config (ascii ''name'')) = ascii ''string''"
    by (simp add: wrong_version_config_def get_prop_def ascii_def)
  then have tn: "typeof (get_prop wrong_version_config (ascii ''name'')) =
      declared_type (ascii ''name'')"
    by (simp only: declared_types)
  from C2_type_findings [of wrong_version_doc wrong_version_config] h t ne tn
  show ?thesis
    by (auto simp: wrong_version_line)
qed

lemma message_type_part: "d \<in> set (type_part key ty sev msg r text) \<Longrightarrow> message d = msg"
  by (auto simp: type_part_def split: if_splits)

lemma message_settings_part:
  "d \<in> set (settings_part config text) \<Longrightarrow>
     message d \<in> {msg_settings_object, msg_timeout_number, msg_retries_number,
       msg_retries_negative}"
  by (auto simp: settings_part_def negative_part_def split: if_splits
      dest: message_type_part)

text \<open>
  Claim C1. \<open>validateConfig\<close> starts its result with one finding of severity error on
  line 0 for each required field, \<open>name\<close> then \<open>version\<close>, that is absent from the
  record; no later finding carries a missing-field message, and the messages of
  different fields differ, so each absent required field has exactly one. For the
  empty record and the empty text the result is exactly the two findings, the first
  mentioning \<open>name\<close> and the second \<open>version\<close>.
\<close>

theorem C1_required_fields:
  "(\<exists>rest. map finding (validateConfig config text) =
      map (\<lambda>f. (Error, 0, msg_required f))
        (filter (\<lambda>f. \<not> has_key f config) [ascii ''name'', ascii ''version'']) @ rest \<and>
      list_all (\<lambda>x. \<forall>f. snd (snd x) \<noteq> msg_required f) rest) \<and>
   (\<forall>f g. msg_required f = msg_required g \<longrightarrow> f = g) \<and>
   map finding (validateConfig Map.empty []) =
     [(Error, 0, msg_required (ascii ''name'')),
      (Error, 0, msg_required (ascii ''version''))] \<and>
   sublist (ascii ''name'') (msg_required (ascii ''name'')) \<and>
   sublist (ascii ''version'') (msg_required (ascii ''version''))"
proof (intro conjI)
  let ?rest = "type_part (ascii ''name'') (ascii ''string'') Error msg_name_string config text @
     type_part (ascii ''version'') (ascii ''string'') Error msg_version_string config text @
     type_part (ascii ''enabled'') (ascii ''boolean'') Warning msg_enabled_boolean config text @
     settings_part config text"
  have "list_all (\<lambda>d. \<forall>f. message d \<noteq> msg_required f) ?rest"
    unfolding list_all_iff
    by (auto dest!: message_type_part message_settings_part simp: quoted_not_required)
  then have "list_all (\<lambda>x. \<forall>f. snd (snd x) \<noteq> msg_required f) (map finding ?rest)"
    unfolding list_all_iff by (auto simp: finding_def)
  moreover have "validateConfig config text =
      map (\<lambda>f. createDiagnostic Error 0 (msg_required f))
        (filter (\<lambda>f. \<not> has_key f config) [ascii ''name'', ascii ''version'']) @ ?rest"
    by (simp only: validateConfig_parts required_part_def REQUIRED_FIELDS_def)
  then have "map finding (validateConfig config text) =
      map (\<lambda>f. (Error, 0, msg_required f))
        (filter (\<lambda>f. \<not> has_key f config) [ascii ''name'', ascii ''version'']) @
      map finding ?rest"
    by (simp only: map_append map_map comp_def finding_createDiagnostic)
  ultimately show "\<exists>rest. map finding (validateConfig config text) =
      map (\<lambda>f. (Error, 0, msg_required f))
        (filter (\<lambda>f. \<not> has_key f config) [ascii ''name'', ascii ''version'']) @ rest \<and>
      list_all (\<lambda>x. \<forall>f. snd (snd x) \<noteq> msg_required f) rest"
    by blast
next
  show "\<forall>f g. msg_required f = msg_required g \<longrightarrow> f = g"
    using msg_required_inj by blast
next
  show "map finding (validateConfig Map.empty []) =
     [(Error, 0, msg_required (ascii ''name'')),
      (Error, 0, msg_required (ascii ''version''))]"
    by (simp add: validateConfig_parts required_part_def type_part_def settings_part_def
        REQUIRED_FIELDS_def has_key_def finding_createDiagnostic)
next
  show "sublist (ascii ''name'') (msg_required (ascii ''name''))"
    unfolding msg_required_def by (rule sublist_appendI)
next
  show "sublist (ascii ''version'') (msg_required (ascii ''version''))"
    unfolding msg_required_def by (rule sublist_appendI)
qed

text \<open>
  The theorem at the tests' record without \<open>name\<close>: a single finding, for
  \<open>name\<close>, on line 0.
\<close>

theorem C1_witness:
  "\<not> has_key (ascii ''name'') missing_name_config \<and>
   has_key (ascii ''version'') missing_name_config \<and>
   map finding (validateConfig missing_name_config missing_name_doc) =
     [(Error, 0, msg_required (ascii ''name''))]"
proof -
  have v: "map finding (validateConfig missing_name_config missing_name_doc) =
     [(Error, 0, msg_required (ascii ''name''))]"
    by (simp add: validateConfig_parts required_part_def type_part_def settings_part_def
        REQUIRED_FIELDS_def has_key_def get_prop_def missing_name_config_def ascii_def
        finding_createDiagnostic)
  from C1_required_fields [of missing_name_config missing_name_doc] v
  show ?thesis
    by (simp add: has_key_def missing_name_config_def ascii_def)
qed

section \<open>Findings about retries, and severities\<close>














lemma error_warning_disjoint: "m \<in> set error_messages \<Longrightarrow> m \<notin> set warning_messages"
  using msgs_distinct msg_required_not_quoted [of "ascii ''name''"]
    msg_required_not_quoted [of "ascii ''version''"]
  by (auto simp: error_messages_def warning_messages_def)

lemma kind_required_part:
  "d \<in> set (required_part config) \<Longrightarrow> severity d = Error \<and> message d \<in> set error_messages"
  by (auto simp: required_part_def REQUIRED_FIELDS_def error_messages_def split: if_splits)

lemma kind_type_part:
  "d \<in> set (type_part key ty sev msg r text) \<Longrightarrow> severity d = sev \<and> message d = msg"
  by (auto simp: type_part_def split: if_splits)

lemma kind_settings_part:
  "d \<in> set (settings_part config text) \<Longrightarrow>
     severity d = Error \<and> message d \<in> set error_messages \<or>
     severity d = Warning \<and> message d \<in> set warning_messages"
  by (auto simp: settings_part_def negative_part_def error_messages_def warning_messages_def
      split: if_splits dest!: kind_type_part)

lemma kind_validateConfig:
  "d \<in> set (validateConfig config text) \<Longrightarrow>
     severity d = Error \<and> message d \<in> set error_messages \<or>
     severity d = Warning \<and> message d \<in> set warning_messages"
  unfolding validateConfig_parts
  by (auto simp: error_messages_def warning_messages_def
      dest: kind_type_part kind_required_part kind_settings_part)

lemma severity_by_message_validateConfig:
  "d \<in> set (validateConfig config text) \<Longrightarrow> severity_by_message d"
  using kind_validateConfig [of d config "text"] error_warning_disjoint [of "message d"]
  by (auto simp: severity_by_message_def)

lemma syntax_not_warning: "msg_syntax_prefix @ m \<notin> set warning_messages"
  by (simp add: warning_messages_def msg_syntax_prefix_def msg_defs)

lemma root_not_warning: "msg_root_object \<notin> set warning_messages"
  by (simp add: warning_messages_def msg_root_object_def msg_defs)

lemma severity_by_message_Error:
  "m \<notin> set warning_messages \<Longrightarrow> severity_by_message (createDiagnostic Error l m)"
  by (simp add: severity_by_message_def)

text \<open>
  Claim C8, amended. Every finding about a missing required field, about a required
  field of the wrong type (\<open>name\<close>, \<open>version\<close>) or about a \<open>settings\<close> value that
  is not an object has severity error; every finding about \<open>enabled\<close>,
  \<open>settings.timeout\<close> or \<open>settings.retries\<close> has severity warning. Every finding of
  \<open>validateConfig\<close> is of one of these kinds, and the findings of \<open>validateText\<close>
  obey the same rule.
\<close>

theorem C8_severity_by_message:
  "list_all (\<lambda>d. severity_by_message d \<and> message d \<in> set (error_messages @ warning_messages))
     (validateConfig config text) \<and>
   (\<forall>ds. validateText parseYaml text = Inr ds \<longrightarrow> list_all severity_by_message ds)"
proof (intro conjI allI impI)
  show "list_all (\<lambda>d. severity_by_message d \<and>
      message d \<in> set (error_messages @ warning_messages)) (validateConfig config text)"
    unfolding list_all_iff
    using kind_validateConfig severity_by_message_validateConfig by fastforce
next
  fix ds
  assume "validateText parseYaml text = Inr ds"
  then show "list_all severity_by_message ds"
    using severity_by_message_validateConfig
    by (auto simp: validateText_def list_all_iff severity_by_message_Error
        syntax_not_warning root_not_warning split: if_splits sum.splits option.splits)
qed

lemma invalid_settings_line: "findLineForKey invalid_settings_doc (ascii ''settings'') = Some 2"
  by code_simp

lemma invalid_settings_result:
  "validateConfig invalid_settings_config invalid_settings_doc =
     [createDiagnostic Error 2 msg_settings_object]"
proof -
  have r: "required_part invalid_settings_config = []"
    by (simp add: required_part_def REQUIRED_FIELDS_def has_key_def invalid_settings_config_def)
  have n: "type_part (ascii ''name'') (ascii ''string'') Error msg_name_string
      invalid_settings_config invalid_settings_doc = []"
    by (simp add: type_part_def get_prop_def invalid_settings_config_def ascii_def)
  have v: "type_part (ascii ''version'') (ascii ''string'') Error msg_version_string
      invalid_settings_config invalid_settings_doc = []"
    by (simp add: type_part_def get_prop_def invalid_settings_config_def ascii_def)
  have e: "type_part (ascii ''enabled'') (ascii ''boolean'') Warning msg_enabled_boolean
      invalid_settings_config invalid_settings_doc = []"
    by (simp add: type_part_def has_key_def invalid_settings_config_def ascii_def)
  have h: "has_key (ascii ''settings'') invalid_settings_config"
    by (simp add: has_key_def invalid_settings_config_def)
  have t: "typeof (get_prop invalid_settings_config (ascii ''settings'')) \<noteq> ascii ''object''"
    by (simp add: get_prop_def invalid_settings_config_def ascii_def)
  have s: "settings_part invalid_settings_config invalid_settings_doc =
      [createDiagnostic Error 2 msg_settings_object]"
    by (simp add: settings_part_def h t invalid_settings_line)
  show ?thesis
    by (simp only: validateConfig_parts r n v e s append_Nil)
qed

lemma enabled_yes_line: "findLineForKey enabled_yes_doc (ascii ''enabled'') = Some 2"
  by code_simp

lemma enabled_yes_result:
  "validateConfig enabled_yes_config enabled_yes_doc =
     [createDiagnostic Warning 2 msg_enabled_boolean]"
proof -
  have r: "required_part enabled_yes_config = []"
    by (simp add: required_part_def REQUIRED_FIELDS_def has_key_def enabled_yes_config_def)
  have n: "type_part (ascii ''name'') (ascii ''string'') Error msg_name_string
      enabled_yes_config enabled_yes_doc = []"
    by (simp add: type_part_def get_prop_def enabled_yes_config_def ascii_def)
  have v: "type_part (ascii ''version'') (ascii ''string'') Error msg_version_string
      enabled_yes_config enabled_yes_doc = []"
    by (simp add: type_part_def get_prop_def enabled_yes_config_def ascii_def)
  have h: "has_key (ascii ''enabled'') enabled_yes_config"
    by (simp add: has_key_def enabled_yes_config_def)
  have t: "typeof (get_prop enabled_yes_config (ascii ''enabled'')) \<noteq> ascii ''boolean''"
    by (simp add: get_prop_def enabled_yes_config_def ascii_def)
  have e: "type_part (ascii ''enabled'') (ascii ''boolean'') Warning msg_enabled_boolean
      enabled_yes_config enabled_yes_doc = [createDiagnostic Warning 2 msg_enabled_boolean]"
    by (simp add: type_part_def h t enabled_yes_line)
  have s: "settings_part enabled_yes_config enabled_yes_doc = []"
    by (simp add: settings_part_def has_key_def enabled_yes_config_def ascii_def)
  show ?thesis
    by (simp only: validateConfig_parts r n v e s append_Nil append_Nil2)
qed

text \<open>
  Claim C8 as stated fails: \<open>settings\<close> is an optional field, and for the tests'
  record whose \<open>settings\<close> is a string the validator reports it with severity
  error, not warning.
\<close>

theorem C8_counterexample:
  "map_option required (FIELD_DOCS (ascii ''settings'')) = Some False \<and>
   validateConfig invalid_settings_config invalid_settings_doc =
     [createDiagnostic Error 2 msg_settings_object] \<and>
   severity (createDiagnostic Error 2 msg_settings_object) \<noteq> Warning"
  by (simp add: invalid_settings_result) (simp add: FIELD_DOCS_def ascii_def)

text \<open>
  The amended theorem at the record whose \<open>settings\<close> is a string (an error) and at
  the record whose \<open>enabled\<close> is a string (a warning).
\<close>

theorem C8_witness:
  "validateConfig invalid_settings_config invalid_settings_doc =
     [createDiagnostic Error 2 msg_settings_object] \<and>
   msg_settings_object \<in> set error_messages \<and>
   severity (hd (validateConfig invalid_settings_config invalid_settings_doc)) = Error \<and>
   validateConfig enabled_yes_config enabled_yes_doc =
     [createDiagnostic Warning 2 msg_enabled_boolean] \<and>
   msg_enabled_boolean \<in> set warning_messages \<and>
   severity (hd (validateConfig enabled_yes_config enabled_yes_doc)) = Warning"
proof -
  have m1: "msg_settings_object \<in> set error_messages"
    by (simp add: error_messages_def)
  have m2: "msg_enabled_boolean \<in> set warning_messages"
    by (simp add: warning_messages_def)
  from C8_severity_by_message [of invalid_settings_config invalid_settings_doc]
  have "severity_by_message (hd (validateConfig invalid_settings_config invalid_settings_doc))"
    by (simp add: invalid_settings_result)
  with m1 have s1: "severity (hd (validateConfig invalid_settings_config invalid_settings_doc)) = Error"
    by (simp add: severity_by_message_def invalid_settings_result)
  from C8_severity_by_message [of enabled_yes_config enabled_yes_doc]
  have "severity_by_message (hd (validateConfig enabled_yes_config enabled_yes_doc))"
    by (simp add: enabled_yes_result)
  with m2 have s2: "severity (hd (validateConfig enabled_yes_config enabled_yes_doc)) = Warning"
    by (simp add: severity_by_message_def enabled_yes_result)
  from m1 m2 s1 s2 show ?thesis
    by (simp add: invalid_settings_result enabled_yes_result)
qed

end
